theory Spec2Isabelle
  imports Main
begin

section \<open>Device utilities of boltzgen (\<^verbatim>\<open>src/boltzgen/utils/device.py\<close>)\<close>

text \<open>
  The module is a set of six functions layered on the PyTorch runtime. The embedding keeps
  the runtime as an explicit state that every function takes and returns: the answers the
  runtime gives to the module's queries, and the log of the runtime calls made so far.
  An exception of the source is the \<open>Inl\<close> branch of a sum; a returned value is \<open>Inr\<close>.
\<close>

subsection \<open>Exceptions\<close>

text \<open>
  The exception classes that the runtime calls of the module can raise.
  \<open>NotImplementedError\<close> is a subclass of \<open>RuntimeError\<close> in Python, so a handler
  for \<open>RuntimeError\<close> catches it too.
\<close>

datatype exn =
    RuntimeError
  | NotImplementedError
  | TypeError
  | AttributeError
  | AssertionError
  | ValueError

fun issubclass :: "exn \<Rightarrow> exn \<Rightarrow> bool" where
  "issubclass NotImplementedError RuntimeError = True"
| "issubclass e c = (e = c)"

subsection \<open>The runtime\<close>

text \<open>The runtime calls the module makes, in the order the log records them.\<close>

datatype call =
    CudaIsAvailable
  | HasattrBackendsMps
  | BackendsMpsIsAvailable
  | CudaDeviceCount
  | CudaGetDeviceCapability
  | CudaEmptyCache
  | MpsEmptyCache
  | AutocastEnter string
  | AutocastExit string

text \<open>
  A runtime state. The availability checks and the device count are total queries
  (\<open>torch.cuda.is_available() -> bool\<close>, \<open>torch.cuda.device_count() -> int\<close>);
  \<open>torch.backends.mps\<close> may be missing on an older runtime, which is \<open>None\<close> here, and
  otherwise \<open>Some b\<close> with \<open>b\<close> the answer of its \<open>is_available()\<close>. The capability
  query, the two cache clears and the entry and exit of an autocast scope either return
  or raise.
\<close>

record runtime =
  cuda_available :: bool
  backends_mps :: "bool option"
  cuda_devices :: int
  cuda_capability :: "exn + int \<times> int"
  cuda_cache_clear :: "exn + unit"
  mps_cache_clear :: "exn + unit"
  autocast_enter :: "string \<Rightarrow> exn + unit"
  autocast_exit :: "string \<Rightarrow> exn + unit"
  calls :: "call list"

definition logged :: "call \<Rightarrow> runtime \<Rightarrow> runtime" where
  "logged c rt = rt\<lparr>calls := calls rt @ [c]\<rparr>"

text \<open>\<open>torch.cuda.is_available()\<close>\<close>

definition torch_cuda_is_available :: "runtime \<Rightarrow> bool \<times> runtime" where
  "torch_cuda_is_available rt = (cuda_available rt, logged CudaIsAvailable rt)"

text \<open>\<open>hasattr(torch.backends, "mps")\<close>\<close>

definition hasattr_torch_backends_mps :: "runtime \<Rightarrow> bool \<times> runtime" where
  "hasattr_torch_backends_mps rt =
     (case backends_mps rt of
        None \<Rightarrow> (False, logged HasattrBackendsMps rt)
      | Some b \<Rightarrow> (True, logged HasattrBackendsMps rt))"

text \<open>
  \<open>torch.backends.mps.is_available()\<close>: the attribute access raises
  \<open>AttributeError\<close> when the backend is missing.
\<close>

definition torch_backends_mps_is_available :: "runtime \<Rightarrow> (exn + bool) \<times> runtime" where
  "torch_backends_mps_is_available rt =
     (case backends_mps rt of
        None \<Rightarrow> (Inl AttributeError, logged BackendsMpsIsAvailable rt)
      | Some b \<Rightarrow> (Inr b, logged BackendsMpsIsAvailable rt))"

text \<open>\<open>torch.cuda.device_count()\<close>\<close>

definition torch_cuda_device_count :: "runtime \<Rightarrow> int \<times> runtime" where
  "torch_cuda_device_count rt = (cuda_devices rt, logged CudaDeviceCount rt)"

text \<open>\<open>torch.cuda.get_device_capability()\<close>\<close>

definition torch_cuda_get_device_capability :: "runtime \<Rightarrow> (exn + int \<times> int) \<times> runtime" where
  "torch_cuda_get_device_capability rt = (cuda_capability rt, logged CudaGetDeviceCapability rt)"

text \<open>\<open>torch.cuda.empty_cache()\<close> and \<open>torch.mps.empty_cache()\<close>\<close>

definition torch_cuda_empty_cache :: "runtime \<Rightarrow> (exn + unit) \<times> runtime" where
  "torch_cuda_empty_cache rt = (cuda_cache_clear rt, logged CudaEmptyCache rt)"

definition torch_mps_empty_cache :: "runtime \<Rightarrow> (exn + unit) \<times> runtime" where
  "torch_mps_empty_cache rt = (mps_cache_clear rt, logged MpsEmptyCache rt)"

text \<open>
  \<open>torch.autocast(device_type=d)\<close>: building the context manager and entering it, and
  leaving it.
\<close>

definition torch_autocast_enter :: "string \<Rightarrow> runtime \<Rightarrow> (exn + unit) \<times> runtime" where
  "torch_autocast_enter d rt = (autocast_enter rt d, logged (AutocastEnter d) rt)"

definition torch_autocast_exit :: "string \<Rightarrow> runtime \<Rightarrow> (exn + unit) \<times> runtime" where
  "torch_autocast_exit d rt = (autocast_exit rt d, logged (AutocastExit d) rt)"

subsection \<open>Device handles\<close>

text \<open>A \<open>torch.device\<close> object: its attributes \<open>type\<close> and \<open>index\<close>.\<close>

record device =
  dev_type :: string
  dev_index :: "int option"

text \<open>
  Modelled from the spec: \<open>torch.device\<close> belongs to PyTorch, whose code is not part of
  the repository. The spec calls its result an opaque handle constructed from the tag;
  here the constructor accepts a bare device type name of the runtime, gives the handle
  no index, and raises \<open>RuntimeError\<close> on any other string. The module never passes an
  indexed name such as \<open>cuda:0\<close>.
\<close>

definition torch_device_types :: "string list" where
  "torch_device_types =
     [''cpu'', ''cuda'', ''ipu'', ''xpu'', ''mkldnn'', ''opengl'', ''opencl'', ''ideep'',
      ''hip'', ''ve'', ''fpga'', ''maia'', ''xla'', ''lazy'', ''vulkan'', ''mps'', ''meta'',
      ''hpu'', ''mtia'', ''privateuseone'']"

definition torch_device :: "string \<Rightarrow> exn + device" where
  "torch_device s =
     (if s \<in> set torch_device_types
      then Inr \<lparr>dev_type = s, dev_index = None\<rparr>
      else Inl RuntimeError)"

subsection \<open>The module's functions\<close>

text \<open>
  \<open>get_device_type\<close>, lines 15 to 20. Python's \<open>and\<close> evaluates its right operand only
  when the left one is true.
\<close>

definition get_device_type :: "runtime \<Rightarrow> (exn + string) \<times> runtime" where
  "get_device_type rt =
     (case torch_cuda_is_available rt of
        (cuda, rt1) \<Rightarrow>
          if cuda then (Inr ''cuda'', rt1)
          else
            (case hasattr_torch_backends_mps rt1 of
               (has_mps, rt2) \<Rightarrow>
                 if has_mps then
                   (case torch_backends_mps_is_available rt2 of
                      (Inl e, rt3) \<Rightarrow> (Inl e, rt3)
                    | (Inr mps, rt3) \<Rightarrow>
                        if mps then (Inr ''mps'', rt3) else (Inr ''cpu'', rt3))
                 else (Inr ''cpu'', rt2)))"

text \<open>\<open>get_device\<close>, line 32.\<close>

definition get_device :: "runtime \<Rightarrow> (exn + device) \<times> runtime" where
  "get_device rt =
     (case get_device_type rt of
        (Inl e, rt1) \<Rightarrow> (Inl e, rt1)
      | (Inr t, rt1) \<Rightarrow> (torch_device t, rt1))"

text \<open>\<open>get_device_count\<close>, lines 44 to 49.\<close>

definition get_device_count :: "runtime \<Rightarrow> (exn + int) \<times> runtime" where
  "get_device_count rt =
     (case get_device_type rt of
        (Inl e, rt1) \<Rightarrow> (Inl e, rt1)
      | (Inr device_type, rt1) \<Rightarrow>
          if device_type = ''cuda'' then
            (case torch_cuda_device_count rt1 of (n, rt2) \<Rightarrow> (Inr n, rt2))
          else (Inr 1, rt1))"

text \<open>\<open>get_device_capability\<close>, lines 62 to 67.\<close>

definition get_device_capability :: "runtime \<Rightarrow> (exn + int \<times> int) \<times> runtime" where
  "get_device_capability rt =
     (case get_device_type rt of
        (Inl e, rt1) \<Rightarrow> (Inl e, rt1)
      | (Inr device_type, rt1) \<Rightarrow>
          if device_type = ''cuda'' then torch_cuda_get_device_capability rt1
          else (Inr (8, 0), rt1))"

text \<open>
  \<open>empty_cache\<close>, lines 75 to 80. The function has no \<open>return\<close> statement: it gives
  Python's \<open>None\<close>, the unit value here.
\<close>

definition empty_cache :: "runtime \<Rightarrow> (exn + unit) \<times> runtime" where
  "empty_cache rt =
     (case get_device_type rt of
        (Inl e, rt1) \<Rightarrow> (Inl e, rt1)
      | (Inr device_type, rt1) \<Rightarrow>
          if device_type = ''cuda'' then torch_cuda_empty_cache rt1
          else if device_type = ''mps'' then torch_mps_empty_cache rt1
          else (Inr (), rt1))"

text \<open>
  The \<open>with\<close> statement of lines 99 and 100: the scope is entered, its body \<open>pass\<close> does
  nothing, and the scope is left. When entering raises, the scope is not left.
\<close>

definition autocast_probe :: "runtime \<Rightarrow> (exn + unit) \<times> runtime" where
  "autocast_probe rt =
     (case torch_autocast_enter ''mps'' rt of
        (Inl e, rt1) \<Rightarrow> (Inl e, rt1)
      | (Inr u, rt1) \<Rightarrow> torch_autocast_exit ''mps'' rt1)"

text \<open>
  The \<open>if\<close>/\<open>elif\<close> chain of lines 93 and 95, and what is left when neither condition
  holds: the statement of line 105.
\<close>

datatype branch = Direct | Probe | Fallthrough

definition autocast_branch :: "string \<Rightarrow> branch" where
  "autocast_branch device_type =
     (if device_type \<in> set [''cuda'', ''cpu''] then Direct
      else if device_type = ''mps'' then Probe
      else Fallthrough)"

text \<open>
  \<open>get_autocast_device_type\<close>, lines 92 to 105. The source declares the result as
  \<open>Optional[str]\<close>, a \<open>string option\<close> here. The handler of line 102 catches the
  instances of \<open>RuntimeError\<close> and of \<open>TypeError\<close>; any other exception goes on to the
  caller.
\<close>

definition get_autocast_device_type :: "runtime \<Rightarrow> (exn + string option) \<times> runtime" where
  "get_autocast_device_type rt =
     (case get_device_type rt of
        (Inl e, rt1) \<Rightarrow> (Inl e, rt1)
      | (Inr device_type, rt1) \<Rightarrow>
          (case autocast_branch device_type of
             Direct \<Rightarrow> (Inr (Some device_type), rt1)
           | Probe \<Rightarrow>
               (case autocast_probe rt1 of
                  (Inr u, rt2) \<Rightarrow> (Inr (Some ''mps''), rt2)
                | (Inl e, rt2) \<Rightarrow>
                    if issubclass e RuntimeError \<or> issubclass e TypeError
                    then (Inr (Some ''cpu''), rt2)
                    else (Inl e, rt2))
           | Fallthrough \<Rightarrow> (Inr (Some ''cpu''), rt1)))"

subsection \<open>Example runtimes\<close>

text \<open>
  CUDA available with two devices of capability (9, 0); the MPS backend exists and is
  not available.
\<close>

definition rt_cuda :: runtime where
  "rt_cuda =
     \<lparr>cuda_available = True, backends_mps = Some False, cuda_devices = 2,
      cuda_capability = Inr (9, 0), cuda_cache_clear = Inr (), mps_cache_clear = Inr (),
      autocast_enter = (\<lambda>d. Inr ()), autocast_exit = (\<lambda>d. Inr ()), calls = []\<rparr>"

text \<open>
  CUDA reported available with no device: the count is 0 and the capability query raises.
  The MPS backend is reported available as well.
\<close>

definition rt_cuda_no_device :: runtime where
  "rt_cuda_no_device =
     \<lparr>cuda_available = True, backends_mps = Some True, cuda_devices = 0,
      cuda_capability = Inl RuntimeError, cuda_cache_clear = Inr (), mps_cache_clear = Inr (),
      autocast_enter = (\<lambda>d. Inr ()), autocast_exit = (\<lambda>d. Inr ()), calls = []\<rparr>"

text \<open>No CUDA, MPS available, autocast supported on MPS.\<close>

definition rt_mps :: runtime where
  "rt_mps =
     \<lparr>cuda_available = False, backends_mps = Some True, cuda_devices = 0,
      cuda_capability = Inl RuntimeError, cuda_cache_clear = Inr (), mps_cache_clear = Inr (),
      autocast_enter = (\<lambda>d. Inr ()), autocast_exit = (\<lambda>d. Inr ()), calls = []\<rparr>"

text \<open>
  No CUDA, MPS available on an older runtime: autocast rejects the device type
  \<open>mps\<close> with a \<open>RuntimeError\<close>, and the module \<open>torch.mps\<close> does not exist, so that
  \<open>torch.mps.empty_cache()\<close> raises \<open>AttributeError\<close>.
\<close>

definition rt_mps_old :: runtime where
  "rt_mps_old =
     \<lparr>cuda_available = False, backends_mps = Some True, cuda_devices = 0,
      cuda_capability = Inl RuntimeError, cuda_cache_clear = Inr (),
      mps_cache_clear = Inl AttributeError,
      autocast_enter = (\<lambda>d. if d = ''mps'' then Inl RuntimeError else Inr ()),
      autocast_exit = (\<lambda>d. Inr ()), calls = []\<rparr>"

text \<open>Neither accelerator is available; the MPS backend exists.\<close>

definition rt_cpu :: runtime where
  "rt_cpu =
     \<lparr>cuda_available = False, backends_mps = Some False, cuda_devices = 0,
      cuda_capability = Inl RuntimeError, cuda_cache_clear = Inr (), mps_cache_clear = Inr (),
      autocast_enter = (\<lambda>d. Inr ()), autocast_exit = (\<lambda>d. Inr ()), calls = []\<rparr>"

text \<open>No CUDA, and a runtime without \<open>torch.backends.mps\<close>.\<close>

definition rt_legacy :: runtime where
  "rt_legacy =
     \<lparr>cuda_available = False, backends_mps = None, cuda_devices = 0,
      cuda_capability = Inl RuntimeError, cuda_cache_clear = Inr (),
      mps_cache_clear = Inl AttributeError,
      autocast_enter = (\<lambda>d. Inr ()), autocast_exit = (\<lambda>d. Inr ()), calls = []\<rparr>"

text \<open>
  No CUDA, MPS available; the autocast scope is entered, and leaving it raises
  \<open>TypeError\<close>.
\<close>

definition rt_mps_exit_raises :: runtime where
  "rt_mps_exit_raises =
     \<lparr>cuda_available = False, backends_mps = Some True, cuda_devices = 0,
      cuda_capability = Inl RuntimeError, cuda_cache_clear = Inr (), mps_cache_clear = Inr (),
      autocast_enter = (\<lambda>d. Inr ()),
      autocast_exit = (\<lambda>d. if d = ''mps'' then Inl TypeError else Inr ()), calls = []\<rparr>"

text \<open>
  No CUDA, MPS available; entering the autocast scope raises \<open>ValueError\<close>, which is
  neither a \<open>RuntimeError\<close> nor a \<open>TypeError\<close>.
\<close>

definition rt_mps_enter_value_error :: runtime where
  "rt_mps_enter_value_error =
     \<lparr>cuda_available = False, backends_mps = Some True, cuda_devices = 0,
      cuda_capability = Inl RuntimeError, cuda_cache_clear = Inr (), mps_cache_clear = Inr (),
      autocast_enter = (\<lambda>d. if d = ''mps'' then Inl ValueError else Inr ()),
      autocast_exit = (\<lambda>d. Inr ()), calls = []\<rparr>"

text \<open>
  No CUDA, MPS available; the autocast scope is entered, and leaving it raises
  \<open>AssertionError\<close>.
\<close>

definition rt_mps_exit_assertion :: runtime where
  "rt_mps_exit_assertion =
     \<lparr>cuda_available = False, backends_mps = Some True, cuda_devices = 0,
      cuda_capability = Inl RuntimeError, cuda_cache_clear = Inr (), mps_cache_clear = Inr (),
      autocast_enter = (\<lambda>d. Inr ()),
      autocast_exit = (\<lambda>d. if d = ''mps'' then Inl AssertionError else Inr ()),
      calls = []\<rparr>"

section \<open>Properties\<close>

subsection \<open>Closed forms\<close>

lemma logged_fields [simp]:
  "cuda_available (logged c rt) = cuda_available rt"
  "backends_mps (logged c rt) = backends_mps rt"
  "cuda_devices (logged c rt) = cuda_devices rt"
  "cuda_capability (logged c rt) = cuda_capability rt"
  "cuda_cache_clear (logged c rt) = cuda_cache_clear rt"
  "mps_cache_clear (logged c rt) = mps_cache_clear rt"
  "autocast_enter (logged c rt) = autocast_enter rt"
  "autocast_exit (logged c rt) = autocast_exit rt"
  "calls (logged c rt) = calls rt @ [c]"
  by (simp_all add: logged_def)

lemmas runtime_call_defs =
  torch_cuda_is_available_def hasattr_torch_backends_mps_def
  torch_backends_mps_is_available_def torch_cuda_device_count_def
  torch_cuda_get_device_capability_def torch_cuda_empty_cache_def
  torch_mps_empty_cache_def torch_autocast_enter_def torch_autocast_exit_def

text \<open>The result and the final state of \<open>get_device_type\<close>, case by case.\<close>

lemma get_device_type_eq:
  "get_device_type rt =
     (if cuda_available rt then (Inr ''cuda'', logged CudaIsAvailable rt)
      else case backends_mps rt of
        None \<Rightarrow> (Inr ''cpu'', logged HasattrBackendsMps (logged CudaIsAvailable rt))
      | Some b \<Rightarrow>
          (Inr (if b then ''mps'' else ''cpu''),
           logged BackendsMpsIsAvailable (logged HasattrBackendsMps (logged CudaIsAvailable rt))))"
  by (simp add: get_device_type_def runtime_call_defs split: option.splits)

lemma get_device_type_fst:
  "fst (get_device_type rt) =
     Inr (if cuda_available rt then ''cuda''
          else if backends_mps rt = Some True then ''mps'' else ''cpu'')"
  by (simp add: get_device_type_eq split: option.splits)

lemma get_device_type_calls:
  "calls (snd (get_device_type rt)) = calls rt @
     (if cuda_available rt then [CudaIsAvailable]
      else if backends_mps rt = None then [CudaIsAvailable, HasattrBackendsMps]
      else [CudaIsAvailable, HasattrBackendsMps, BackendsMpsIsAvailable])"
  by (simp add: get_device_type_eq split: option.splits)

lemma get_device_type_fields [simp]:
  "cuda_available (snd (get_device_type rt)) = cuda_available rt"
  "backends_mps (snd (get_device_type rt)) = backends_mps rt"
  "cuda_devices (snd (get_device_type rt)) = cuda_devices rt"
  "cuda_capability (snd (get_device_type rt)) = cuda_capability rt"
  "cuda_cache_clear (snd (get_device_type rt)) = cuda_cache_clear rt"
  "mps_cache_clear (snd (get_device_type rt)) = mps_cache_clear rt"
  "autocast_enter (snd (get_device_type rt)) = autocast_enter rt"
  "autocast_exit (snd (get_device_type rt)) = autocast_exit rt"
  by (simp_all add: get_device_type_eq split: option.splits)

text \<open>The \<open>with\<close> statement, in terms of the answers of the runtime.\<close>

lemma autocast_probe_eq:
  "autocast_probe rt =
     (case autocast_enter rt ''mps'' of
        Inl e \<Rightarrow> (Inl e, logged (AutocastEnter ''mps'') rt)
      | Inr u \<Rightarrow>
          (autocast_exit rt ''mps'',
           logged (AutocastExit ''mps'') (logged (AutocastEnter ''mps'') rt)))"
  by (simp add: autocast_probe_def runtime_call_defs split: sum.splits)

lemma autocast_branch_simps [simp]:
  "autocast_branch ''cuda'' = Direct"
  "autocast_branch ''cpu'' = Direct"
  "autocast_branch ''mps'' = Probe"
  by (simp_all add: autocast_branch_def)

subsection \<open>Selecting the device type\<close>

text \<open>
  C1. In every runtime state \<open>get_device_type\<close> returns, and what it returns is one of
  \<open>cuda\<close>, \<open>mps\<close> and \<open>cpu\<close>, by priority: \<open>cuda\<close> when the CUDA check reports true,
  whatever the MPS check says; otherwise \<open>mps\<close> when the MPS check reports true;
  otherwise \<open>cpu\<close>. It never raises.
\<close>

theorem get_device_type_priority:
  "(cuda_available rt \<longrightarrow> fst (get_device_type rt) = Inr ''cuda'') \<and>
   (\<not> cuda_available rt \<and> backends_mps rt = Some True \<longrightarrow>
      fst (get_device_type rt) = Inr ''mps'') \<and>
   (\<not> cuda_available rt \<and> backends_mps rt \<noteq> Some True \<longrightarrow>
      fst (get_device_type rt) = Inr ''cpu'') \<and>
   (\<exists>t. fst (get_device_type rt) = Inr t \<and> t \<in> {''cuda'', ''mps'', ''cpu''})"
  by (simp add: get_device_type_fst)

theorem get_device_type_priority_witness:
  "fst (get_device_type rt_cuda_no_device) = Inr ''cuda'' \<and>
   fst (get_device_type rt_mps) = Inr ''mps'' \<and>
   fst (get_device_type rt_cpu) = Inr ''cpu'' \<and>
   fst (get_device_type rt_legacy) = Inr ''cpu''"
proof -
  have 1: "cuda_available rt_cuda_no_device \<and> backends_mps rt_cuda_no_device = Some True"
    by (simp add: rt_cuda_no_device_def)
  have 2: "\<not> cuda_available rt_mps \<and> backends_mps rt_mps = Some True"
    by (simp add: rt_mps_def)
  have 3: "\<not> cuda_available rt_cpu \<and> backends_mps rt_cpu \<noteq> Some True"
    by (simp add: rt_cpu_def)
  have 4: "\<not> cuda_available rt_legacy \<and> backends_mps rt_legacy \<noteq> Some True"
    by (simp add: rt_legacy_def)
  from 1 get_device_type_priority [of rt_cuda_no_device]
  have a: "fst (get_device_type rt_cuda_no_device) = Inr ''cuda''" by simp
  from 2 get_device_type_priority [of rt_mps]
  have b: "fst (get_device_type rt_mps) = Inr ''mps''" by simp
  from 3 get_device_type_priority [of rt_cpu]
  have c: "fst (get_device_type rt_cpu) = Inr ''cpu''" by simp
  from 4 get_device_type_priority [of rt_legacy]
  have d: "fst (get_device_type rt_legacy) = Inr ''cpu''" by simp
  from a b c d show ?thesis by simp
qed

subsection \<open>The autocast device type\<close>

text \<open>
  C2. \<open>get_autocast_device_type\<close> returns the device type itself when it is \<open>cuda\<close> or
  \<open>cpu\<close>. When it is \<open>mps\<close>, the function enters and leaves an autocast scope for
  \<open>mps\<close>: it returns \<open>mps\<close> when the runtime lets both succeed, and \<open>cpu\<close> when entering
  or leaving raises an instance of \<open>RuntimeError\<close> or \<open>TypeError\<close>, which is caught; an
  exception of another class raised by the runtime there goes on to the caller. No
  instance of \<open>RuntimeError\<close> or \<open>TypeError\<close> ever reaches the caller, and a returned value
  is always one of the three strings, never \<open>None\<close>. The probe is stated by the answers
  of the runtime, \<open>autocast_enter\<close> and \<open>autocast_exit\<close>, and by the calls it logs.
\<close>

theorem get_autocast_device_type_cases:
  "(fst (get_device_type rt) = Inr ''cuda'' \<longrightarrow>
      fst (get_autocast_device_type rt) = Inr (Some ''cuda'') \<and>
      snd (get_autocast_device_type rt) = snd (get_device_type rt)) \<and>
   (fst (get_device_type rt) = Inr ''cpu'' \<longrightarrow>
      fst (get_autocast_device_type rt) = Inr (Some ''cpu'') \<and>
      snd (get_autocast_device_type rt) = snd (get_device_type rt)) \<and>
   (fst (get_device_type rt) = Inr ''mps'' \<and>
    autocast_enter rt ''mps'' = Inr () \<and> autocast_exit rt ''mps'' = Inr () \<longrightarrow>
      fst (get_autocast_device_type rt) = Inr (Some ''mps'') \<and>
      calls (snd (get_autocast_device_type rt)) =
        calls (snd (get_device_type rt)) @ [AutocastEnter ''mps'', AutocastExit ''mps'']) \<and>
   (fst (get_device_type rt) = Inr ''mps'' \<and> autocast_enter rt ''mps'' = Inl e \<longrightarrow>
      fst (get_autocast_device_type rt) =
        (if issubclass e RuntimeError \<or> issubclass e TypeError
         then Inr (Some ''cpu'') else Inl e) \<and>
      calls (snd (get_autocast_device_type rt)) =
        calls (snd (get_device_type rt)) @ [AutocastEnter ''mps'']) \<and>
   (fst (get_device_type rt) = Inr ''mps'' \<and>
    autocast_enter rt ''mps'' = Inr () \<and> autocast_exit rt ''mps'' = Inl e \<longrightarrow>
      fst (get_autocast_device_type rt) =
        (if issubclass e RuntimeError \<or> issubclass e TypeError
         then Inr (Some ''cpu'') else Inl e) \<and>
      calls (snd (get_autocast_device_type rt)) =
        calls (snd (get_device_type rt)) @ [AutocastEnter ''mps'', AutocastExit ''mps'']) \<and>
   (case fst (get_autocast_device_type rt) of
      Inl x \<Rightarrow> \<not> (issubclass x RuntimeError \<or> issubclass x TypeError)
    | Inr v \<Rightarrow> v \<in> {Some ''cuda'', Some ''mps'', Some ''cpu''})"
  by (simp add: get_autocast_device_type_def get_device_type_eq autocast_probe_eq
      split: option.splits sum.splits)

theorem get_autocast_device_type_cases_witness:
  "fst (get_autocast_device_type rt_cuda) = Inr (Some ''cuda'') \<and>
   fst (get_autocast_device_type rt_cpu) = Inr (Some ''cpu'') \<and>
   fst (get_autocast_device_type rt_mps) = Inr (Some ''mps'') \<and>
   calls (snd (get_autocast_device_type rt_mps)) =
     [CudaIsAvailable, HasattrBackendsMps, BackendsMpsIsAvailable,
      AutocastEnter ''mps'', AutocastExit ''mps''] \<and>
   fst (get_autocast_device_type rt_mps_old) = Inr (Some ''cpu'') \<and>
   calls (snd (get_autocast_device_type rt_mps_old)) =
     [CudaIsAvailable, HasattrBackendsMps, BackendsMpsIsAvailable, AutocastEnter ''mps''] \<and>
   fst (get_autocast_device_type rt_mps_exit_raises) = Inr (Some ''cpu'') \<and>
   fst (get_autocast_device_type rt_mps_enter_value_error) = Inl ValueError \<and>
   fst (get_autocast_device_type rt_mps_exit_assertion) = Inl AssertionError"
proof -
  have 1: "fst (get_device_type rt_cuda) = Inr ''cuda''"
    by (simp add: get_device_type_fst rt_cuda_def)
  have 2: "fst (get_device_type rt_cpu) = Inr ''cpu''"
    by (simp add: get_device_type_fst rt_cpu_def)
  have 3: "fst (get_device_type rt_mps) = Inr ''mps'' \<and>
      autocast_enter rt_mps ''mps'' = Inr () \<and> autocast_exit rt_mps ''mps'' = Inr () \<and>
      calls (snd (get_device_type rt_mps)) =
        [CudaIsAvailable, HasattrBackendsMps, BackendsMpsIsAvailable]"
    by (simp add: get_device_type_fst get_device_type_calls rt_mps_def)
  have 4: "fst (get_device_type rt_mps_old) = Inr ''mps'' \<and>
      autocast_enter rt_mps_old ''mps'' = Inl RuntimeError \<and>
      (issubclass RuntimeError RuntimeError \<or> issubclass RuntimeError TypeError) \<and>
      calls (snd (get_device_type rt_mps_old)) =
        [CudaIsAvailable, HasattrBackendsMps, BackendsMpsIsAvailable]"
    by (simp add: get_device_type_fst get_device_type_calls rt_mps_old_def)
  have 5: "fst (get_device_type rt_mps_exit_raises) = Inr ''mps'' \<and>
      autocast_enter rt_mps_exit_raises ''mps'' = Inr () \<and>
      autocast_exit rt_mps_exit_raises ''mps'' = Inl TypeError \<and>
      (issubclass TypeError RuntimeError \<or> issubclass TypeError TypeError)"
    by (simp add: get_device_type_fst rt_mps_exit_raises_def)
  have 6: "fst (get_device_type rt_mps_enter_value_error) = Inr ''mps'' \<and>
      autocast_enter rt_mps_enter_value_error ''mps'' = Inl ValueError \<and>
      \<not> (issubclass ValueError RuntimeError \<or> issubclass ValueError TypeError)"
    by (simp add: get_device_type_fst rt_mps_enter_value_error_def)
  have 7: "fst (get_device_type rt_mps_exit_assertion) = Inr ''mps'' \<and>
      autocast_enter rt_mps_exit_assertion ''mps'' = Inr () \<and>
      autocast_exit rt_mps_exit_assertion ''mps'' = Inl AssertionError \<and>
      \<not> (issubclass AssertionError RuntimeError \<or> issubclass AssertionError TypeError)"
    by (simp add: get_device_type_fst rt_mps_exit_assertion_def)
  from 1 get_autocast_device_type_cases [of rt_cuda]
  have a: "fst (get_autocast_device_type rt_cuda) = Inr (Some ''cuda'')" by simp
  from 2 get_autocast_device_type_cases [of rt_cpu]
  have b: "fst (get_autocast_device_type rt_cpu) = Inr (Some ''cpu'')" by simp
  from 3 get_autocast_device_type_cases [of rt_mps]
  have c: "fst (get_autocast_device_type rt_mps) = Inr (Some ''mps'') \<and>
      calls (snd (get_autocast_device_type rt_mps)) =
        [CudaIsAvailable, HasattrBackendsMps, BackendsMpsIsAvailable,
         AutocastEnter ''mps'', AutocastExit ''mps'']" by simp
  from 4 get_autocast_device_type_cases [of rt_mps_old RuntimeError]
  have d: "fst (get_autocast_device_type rt_mps_old) = Inr (Some ''cpu'') \<and>
      calls (snd (get_autocast_device_type rt_mps_old)) =
        [CudaIsAvailable, HasattrBackendsMps, BackendsMpsIsAvailable, AutocastEnter ''mps'']"
    by simp
  from 5 get_autocast_device_type_cases [of rt_mps_exit_raises TypeError]
  have e: "fst (get_autocast_device_type rt_mps_exit_raises) = Inr (Some ''cpu'')" by simp
  from 6 get_autocast_device_type_cases [of rt_mps_enter_value_error ValueError]
  have f: "fst (get_autocast_device_type rt_mps_enter_value_error) = Inl ValueError" by simp
  from 7 get_autocast_device_type_cases [of rt_mps_exit_assertion AssertionError]
  have g: "fst (get_autocast_device_type rt_mps_exit_assertion) = Inl AssertionError" by simp
  from a b c d e f g show ?thesis by simp
qed

subsection \<open>Device count and capability\<close>

text \<open>
  C3. \<open>get_device_count\<close> returns 1 when the device type is \<open>mps\<close> or \<open>cpu\<close>, and the
  count reported by \<open>torch.cuda.device_count()\<close> when it is \<open>cuda\<close>; a reported 0 is
  returned as it is.
\<close>

theorem get_device_count_cases:
  "(fst (get_device_type rt) = Inr ''mps'' \<or> fst (get_device_type rt) = Inr ''cpu'' \<longrightarrow>
      fst (get_device_count rt) = Inr 1) \<and>
   (fst (get_device_type rt) = Inr ''cuda'' \<longrightarrow>
      fst (get_device_count rt) = Inr (cuda_devices rt))"
  by (simp add: get_device_count_def get_device_type_eq runtime_call_defs split: option.splits)

theorem get_device_count_cases_witness:
  "fst (get_device_count rt_mps) = Inr 1 \<and>
   fst (get_device_count rt_cpu) = Inr 1 \<and>
   fst (get_device_count rt_cuda) = Inr 2 \<and>
   fst (get_device_count rt_cuda_no_device) = Inr 0"
proof -
  have 1: "fst (get_device_type rt_mps) = Inr ''mps''"
    by (simp add: get_device_type_fst rt_mps_def)
  have 2: "fst (get_device_type rt_cpu) = Inr ''cpu''"
    by (simp add: get_device_type_fst rt_cpu_def)
  have 3: "fst (get_device_type rt_cuda) = Inr ''cuda'' \<and> cuda_devices rt_cuda = 2"
    by (simp add: get_device_type_fst rt_cuda_def)
  have 4: "fst (get_device_type rt_cuda_no_device) = Inr ''cuda'' \<and>
      cuda_devices rt_cuda_no_device = 0"
    by (simp add: get_device_type_fst rt_cuda_no_device_def)
  from 1 2 3 4 get_device_count_cases [of rt_mps] get_device_count_cases [of rt_cpu]
    get_device_count_cases [of rt_cuda] get_device_count_cases [of rt_cuda_no_device]
  show ?thesis by simp
qed

text \<open>
  C4. \<open>get_device_capability\<close> returns the pair (8, 0) when the device type is \<open>mps\<close> or
  \<open>cpu\<close>, and the outcome of \<open>torch.cuda.get_device_capability()\<close> when it is
  \<open>cuda\<close>: the pair (major, minor) that the runtime reports.
\<close>

theorem get_device_capability_cases:
  "(fst (get_device_type rt) = Inr ''mps'' \<or> fst (get_device_type rt) = Inr ''cpu'' \<longrightarrow>
      fst (get_device_capability rt) = Inr (8, 0)) \<and>
   (fst (get_device_type rt) = Inr ''cuda'' \<longrightarrow>
      fst (get_device_capability rt) = cuda_capability rt) \<and>
   (fst (get_device_type rt) = Inr ''cuda'' \<and> cuda_capability rt = Inr (major, minor) \<longrightarrow>
      fst (get_device_capability rt) = Inr (major, minor))"
  by (simp add: get_device_capability_def get_device_type_eq runtime_call_defs
      split: option.splits)

theorem get_device_capability_cases_witness:
  "fst (get_device_capability rt_mps) = Inr (8, 0) \<and>
   fst (get_device_capability rt_cpu) = Inr (8, 0) \<and>
   fst (get_device_capability rt_cuda) = Inr (9, 0)"
proof -
  have 1: "fst (get_device_type rt_mps) = Inr ''mps''"
    by (simp add: get_device_type_fst rt_mps_def)
  have 2: "fst (get_device_type rt_cpu) = Inr ''cpu''"
    by (simp add: get_device_type_fst rt_cpu_def)
  have 3: "fst (get_device_type rt_cuda) = Inr ''cuda'' \<and> cuda_capability rt_cuda = Inr (9, 0)"
    by (simp add: get_device_type_fst rt_cuda_def)
  from 1 2 3 get_device_capability_cases [of rt_mps] get_device_capability_cases [of rt_cpu]
    get_device_capability_cases [of rt_cuda 9 0]
  show ?thesis by simp
qed

subsection \<open>Clearing the cache\<close>

text \<open>
  C5 as stated does not hold: \<open>empty_cache\<close> has no handler. On a runtime that
  selects \<open>mps\<close> and has no module \<open>torch.mps\<close>, the \<open>AttributeError\<close> of
  \<open>torch.mps.empty_cache()\<close> reaches the caller, so the function can raise.
\<close>

theorem empty_cache_raises: "fst (empty_cache rt_mps_old) = Inl AttributeError"
  by (simp add: empty_cache_def get_device_type_eq runtime_call_defs rt_mps_old_def)

text \<open>
  C5, as the code has it. \<open>empty_cache\<close> calls the CUDA cache clear when the device type is
  \<open>cuda\<close>, the MPS cache clear when it is \<open>mps\<close>, and makes no runtime call after the
  availability probes when it is \<open>cpu\<close>. On \<open>cpu\<close> it returns \<open>None\<close>; otherwise its
  outcome is the outcome of the cache clear it called: \<open>None\<close> when the clear returns, the
  clear's exception when it raises.
\<close>

theorem empty_cache_cases:
  "(fst (get_device_type rt) = Inr ''cuda'' \<longrightarrow>
      fst (empty_cache rt) = cuda_cache_clear rt \<and>
      snd (empty_cache rt) = logged CudaEmptyCache (snd (get_device_type rt))) \<and>
   (fst (get_device_type rt) = Inr ''mps'' \<longrightarrow>
      fst (empty_cache rt) = mps_cache_clear rt \<and>
      snd (empty_cache rt) = logged MpsEmptyCache (snd (get_device_type rt))) \<and>
   (fst (get_device_type rt) = Inr ''cpu'' \<longrightarrow>
      fst (empty_cache rt) = Inr () \<and>
      snd (empty_cache rt) = snd (get_device_type rt))"
  by (simp add: empty_cache_def get_device_type_eq runtime_call_defs split: option.splits)

theorem empty_cache_cases_witness:
  "fst (empty_cache rt_cuda) = Inr () \<and>
   calls (snd (empty_cache rt_cuda)) = [CudaIsAvailable, CudaEmptyCache] \<and>
   fst (empty_cache rt_mps) = Inr () \<and>
   calls (snd (empty_cache rt_mps)) =
     [CudaIsAvailable, HasattrBackendsMps, BackendsMpsIsAvailable, MpsEmptyCache] \<and>
   fst (empty_cache rt_cpu) = Inr () \<and>
   calls (snd (empty_cache rt_cpu)) =
     [CudaIsAvailable, HasattrBackendsMps, BackendsMpsIsAvailable]"
proof -
  have 1: "fst (get_device_type rt_cuda) = Inr ''cuda'' \<and> cuda_cache_clear rt_cuda = Inr () \<and>
      calls (snd (get_device_type rt_cuda)) = [CudaIsAvailable]"
    by (simp add: get_device_type_fst get_device_type_calls rt_cuda_def)
  have 2: "fst (get_device_type rt_mps) = Inr ''mps'' \<and> mps_cache_clear rt_mps = Inr () \<and>
      calls (snd (get_device_type rt_mps)) =
        [CudaIsAvailable, HasattrBackendsMps, BackendsMpsIsAvailable]"
    by (simp add: get_device_type_fst get_device_type_calls rt_mps_def)
  have 3: "fst (get_device_type rt_cpu) = Inr ''cpu'' \<and>
      calls (snd (get_device_type rt_cpu)) =
        [CudaIsAvailable, HasattrBackendsMps, BackendsMpsIsAvailable]"
    by (simp add: get_device_type_fst get_device_type_calls rt_cpu_def)
  from 1 2 3 empty_cache_cases [of rt_cuda] empty_cache_cases [of rt_mps]
    empty_cache_cases [of rt_cpu]
  show ?thesis by simp
qed

subsection \<open>The device handle\<close>

text \<open>
  C6. \<open>get_device\<close> returns a device handle built from the result of \<open>get_device_type\<close>
  in the same runtime state: the type of the handle is that string. It makes no runtime
  call of its own.
\<close>

theorem get_device_tag:
  "\<exists>d t. fst (get_device rt) = Inr d \<and> fst (get_device_type rt) = Inr t \<and>
      dev_type d = t \<and> d = \<lparr>dev_type = t, dev_index = None\<rparr> \<and>
      snd (get_device rt) = snd (get_device_type rt)"
  by (simp add: get_device_def get_device_type_eq torch_device_def torch_device_types_def
      split: option.splits)

subsection \<open>A runtime without the MPS backend\<close>

text \<open>
  C7. When CUDA is not available and \<open>torch.backends\<close> has no attribute \<open>mps\<close>,
  \<open>get_device_type\<close> returns \<open>cpu\<close> and does not raise: it asks for the attribute first
  and, as it is missing, never queries the availability of MPS, a query that would raise
  \<open>AttributeError\<close> in that state.
\<close>

theorem get_device_type_guarded:
  "\<not> cuda_available rt \<Longrightarrow> backends_mps rt = None \<Longrightarrow>
     fst (get_device_type rt) = Inr ''cpu'' \<and>
     calls (snd (get_device_type rt)) = calls rt @ [CudaIsAvailable, HasattrBackendsMps] \<and>
     fst (torch_backends_mps_is_available (snd (get_device_type rt))) = Inl AttributeError"
  by (simp add: get_device_type_eq torch_backends_mps_is_available_def)

theorem get_device_type_guarded_witness:
  "fst (get_device_type rt_legacy) = Inr ''cpu'' \<and>
   calls (snd (get_device_type rt_legacy)) = [CudaIsAvailable, HasattrBackendsMps] \<and>
   fst (torch_backends_mps_is_available (snd (get_device_type rt_legacy))) = Inl AttributeError"
proof -
  have 1: "\<not> cuda_available rt_legacy" by (simp add: rt_legacy_def)
  have 2: "backends_mps rt_legacy = None" by (simp add: rt_legacy_def)
  have 3: "calls rt_legacy = []" by (simp add: rt_legacy_def)
  from get_device_type_guarded [OF 1 2] 3 show ?thesis by simp
qed

subsection \<open>CUDA available with no device\<close>

text \<open>
  C10. When CUDA is reported available with zero devices, \<open>get_device_count\<close> returns 0,
  and \<open>get_device_capability\<close> still performs the capability query, without asking for
  the device count; its outcome is the outcome of the query, so an exception that the
  query raises reaches the caller.
\<close>

theorem capability_query_unguarded:
  "cuda_available rt \<Longrightarrow> cuda_devices rt = 0 \<Longrightarrow>
     fst (get_device_count rt) = Inr 0 \<and>
     calls (snd (get_device_capability rt)) =
       calls rt @ [CudaIsAvailable, CudaGetDeviceCapability] \<and>
     fst (get_device_capability rt) = cuda_capability rt \<and>
     (cuda_capability rt = Inl e \<longrightarrow> fst (get_device_capability rt) = Inl e)"
  by (simp add: get_device_count_def get_device_capability_def get_device_type_eq
      runtime_call_defs)

theorem capability_query_unguarded_witness:
  "fst (get_device_count rt_cuda_no_device) = Inr 0 \<and>
   calls (snd (get_device_capability rt_cuda_no_device)) =
     [CudaIsAvailable, CudaGetDeviceCapability] \<and>
   fst (get_device_capability rt_cuda_no_device) = Inl RuntimeError"
proof -
  have 1: "cuda_available rt_cuda_no_device" by (simp add: rt_cuda_no_device_def)
  have 2: "cuda_devices rt_cuda_no_device = 0" by (simp add: rt_cuda_no_device_def)
  have 3: "cuda_capability rt_cuda_no_device = Inl RuntimeError \<and> calls rt_cuda_no_device = []"
    by (simp add: rt_cuda_no_device_def)
  from capability_query_unguarded [OF 1 2, of RuntimeError] 3 show ?thesis by simp
qed


subsection \<open>The last statement of \<open>get_autocast_device_type\<close>\<close>

lemma get_autocast_device_type_range:
  "fst (get_autocast_device_type rt) = Inr v \<Longrightarrow>
     v = Some ''cuda'' \<or> v = Some ''mps'' \<or> v = Some ''cpu''"
  by (auto simp add: get_autocast_device_type_def get_device_type_eq autocast_probe_eq
      split: option.splits sum.splits if_splits)

lemma get_autocast_device_type_examples:
  "fst (get_autocast_device_type rt_cuda) = Inr (Some ''cuda'')"
  "fst (get_autocast_device_type rt_mps) = Inr (Some ''mps'')"
  "fst (get_autocast_device_type rt_cpu) = Inr (Some ''cpu'')"
  by (simp_all add: get_autocast_device_type_def get_device_type_eq autocast_probe_eq
      rt_cuda_def rt_mps_def rt_cpu_def)

text \<open>
  C9. The \<open>return "cpu"\<close> of line 105 is never reached: the device type that
  \<open>get_device_type\<close> returns always takes one of the two branches before it (the branch
  exists, a string such as \<open>xpu\<close> would take it). The values that
  \<open>get_autocast_device_type\<close> can return are exactly \<open>cuda\<close>, \<open>mps\<close> and \<open>cpu\<close>.
\<close>

theorem autocast_fallthrough_unreachable:
  "(\<exists>t. fst (get_device_type rt) = Inr t \<and> autocast_branch t \<noteq> Fallthrough) \<and>
   (\<exists>s. autocast_branch s = Fallthrough) \<and>
   {v. \<exists>r. fst (get_autocast_device_type r) = Inr v} =
     {Some ''cuda'', Some ''mps'', Some ''cpu''}"
proof (intro conjI)
  show "\<exists>t. fst (get_device_type rt) = Inr t \<and> autocast_branch t \<noteq> Fallthrough"
    by (simp add: get_device_type_fst)
  have "autocast_branch ''xpu'' = Fallthrough"
    by (simp add: autocast_branch_def)
  then show "\<exists>s. autocast_branch s = Fallthrough" ..
  show "{v. \<exists>r. fst (get_autocast_device_type r) = Inr v} =
      {Some ''cuda'', Some ''mps'', Some ''cpu''}"
  proof (rule set_eqI)
    fix v
    show "v \<in> {v. \<exists>r. fst (get_autocast_device_type r) = Inr v} \<longleftrightarrow>
        v \<in> {Some ''cuda'', Some ''mps'', Some ''cpu''}"
    proof
      assume "v \<in> {v. \<exists>r. fst (get_autocast_device_type r) = Inr v}"
      then obtain r where "fst (get_autocast_device_type r) = Inr v" by auto
      from get_autocast_device_type_range [OF this]
      show "v \<in> {Some ''cuda'', Some ''mps'', Some ''cpu''}" by simp
    next
      assume "v \<in> {Some ''cuda'', Some ''mps'', Some ''cpu''}"
      then consider "v = Some ''cuda''" | "v = Some ''mps''" | "v = Some ''cpu''" by auto
      then show "v \<in> {v. \<exists>r. fst (get_autocast_device_type r) = Inr v}"
      proof cases
        case 1
        with get_autocast_device_type_examples(1) show ?thesis by auto
      next
        case 2
        with get_autocast_device_type_examples(2) show ?thesis by auto
      next
        case 3
        with get_autocast_device_type_examples(3) show ?thesis by auto
      qed
    qed
  qed
qed

end
